theory Spec2Isabelle
  imports Main "HOL-Library.Word"
begin

section \<open>The native memory shim of libmemory\<close>

text \<open>
  \<^verbatim>\<open>src/libmemory/native_memory.c\<close> exports three functions. Each body is a single
  call of the allocation function of the same name from \<^verbatim>\<open><stdlib.h>\<close>:
  \<^verbatim>\<open>
  void* native_malloc(size_t size)               { return malloc(size); }
  void* native_calloc(size_t count, size_t size) { return calloc(count, size); }
  void  native_free(void* ptr)                   { free(ptr); }
  \<close>
  The C library is not part of the repository, so the platform allocator is a
  parameter of the model. Its state is threaded explicitly through every call.
\<close>

subsection \<open>Data model\<close>

type_synonym byte = "8 word"

text \<open>
  \<^verbatim>\<open>size_t\<close> and \<^verbatim>\<open>void*\<close> are words of the platform's width \<open>'w\<close>
  (32 or 64 bits on the targets of the header's \<^verbatim>\<open>WIN32\<close> switch).
\<close>

type_synonym 'w size_t = "'w word"
type_synonym 'w pointer = "'w word"

definition NULL :: "'w::len pointer" where
  "NULL = 0"

text \<open>
  \<^verbatim>\<open>free\<close> returns nothing. It either returns to its caller, leaving a new allocator
  state, or the process is aborted (what a hardened C library does on a pointer it does
  not know).
\<close>

datatype 'h free_outcome = Returned 'h | Aborted

text \<open>
  The platform allocator, over its own state type \<open>'h\<close>. The first three fields are the
  functions the shim calls. The last two are not called by the code: \<open>p_live\<close> observes
  a state as the live blocks (base address to the bytes of the usable region) and
  \<open>p_max_align\<close> is \<^verbatim>\<open>alignof(max_align_t)\<close>; the contract of the C standard is
  stated with them.
\<close>

record ('h, 'sz, 'ptr) platform =
  p_malloc :: "'sz \<Rightarrow> 'h \<Rightarrow> 'ptr \<times> 'h"
  p_calloc :: "'sz \<Rightarrow> 'sz \<Rightarrow> 'h \<Rightarrow> 'ptr \<times> 'h"
  p_free :: "'ptr \<Rightarrow> 'h \<Rightarrow> 'h free_outcome"
  p_live :: "'h \<Rightarrow> 'ptr \<rightharpoonup> byte list"
  p_max_align :: nat

type_synonym ('h, 'w) libc = "('h, 'w size_t, 'w pointer) platform"

subsection \<open>The three exported functions\<close>

definition native_malloc :: "('h, 'w::len) libc \<Rightarrow> 'w size_t \<Rightarrow> 'h \<Rightarrow> 'w pointer \<times> 'h" where
  "native_malloc plat sz h = p_malloc plat sz h"

definition native_calloc ::
  "('h, 'w::len) libc \<Rightarrow> 'w size_t \<Rightarrow> 'w size_t \<Rightarrow> 'h \<Rightarrow> 'w pointer \<times> 'h" where
  "native_calloc plat count sz h = p_calloc plat count sz h"

definition native_free :: "('h, 'w::len) libc \<Rightarrow> 'w pointer \<Rightarrow> 'h \<Rightarrow> 'h free_outcome" where
  "native_free plat ptr h = p_free plat ptr h"

subsection \<open>The contract of the C standard for the platform allocator\<close>

text \<open>
  ISO C (C11 7.22.3) on \<^verbatim>\<open>malloc\<close>, \<^verbatim>\<open>calloc\<close> and \<^verbatim>\<open>free\<close>, as far as the
  live blocks show it.

  An allocation of \<open>n\<close> bytes from state \<open>h\<close> that returned \<open>p\<close> and left state \<open>h'\<close>
  either failed, returning the null pointer with every live block as before, or
  succeeded, returning a pointer that is not null, was not live before, is aligned for
  every fundamental type, and is now the base of a live block of at least \<open>n\<close> bytes,
  every other block being as before. A request of size zero may go either way.
\<close>

definition alloc_failed :: "('h, 'w::len) libc \<Rightarrow> 'h \<Rightarrow> 'w pointer \<Rightarrow> 'h \<Rightarrow> bool" where
  "alloc_failed plat h p h' \<longleftrightarrow> p = NULL \<and> p_live plat h' = p_live plat h"

definition alloc_succeeded ::
  "('h, 'w::len) libc \<Rightarrow> nat \<Rightarrow> 'h \<Rightarrow> 'w pointer \<Rightarrow> 'h \<Rightarrow> bool" where
  "alloc_succeeded plat n h p h' \<longleftrightarrow>
     p \<noteq> NULL \<and> p_live plat h p = None \<and> unat p mod p_max_align plat = 0 \<and>
     (\<exists>bs. n \<le> length bs \<and> p_live plat h' = (p_live plat h)(p \<mapsto> bs))"

definition alloc_post :: "('h, 'w::len) libc \<Rightarrow> nat \<Rightarrow> 'h \<Rightarrow> 'w pointer \<Rightarrow> 'h \<Rightarrow> bool" where
  "alloc_post plat n h p h' \<longleftrightarrow> alloc_failed plat h p h' \<or> alloc_succeeded plat n h p h'"

text \<open>The first \<open>n\<close> bytes of the block at \<open>p\<close> are zero.\<close>

definition zeroed :: "('h, 'w::len) libc \<Rightarrow> nat \<Rightarrow> 'w pointer \<Rightarrow> 'h \<Rightarrow> bool" where
  "zeroed plat n p h \<longleftrightarrow>
     (\<exists>bs. p_live plat h p = Some bs \<and> n \<le> length bs \<and> (\<forall>i<n. bs ! i = 0))"

text \<open>The product of two sizes does not fit \<^verbatim>\<open>size_t\<close>.\<close>

definition mul_overflows :: "'w::len size_t \<Rightarrow> 'w size_t \<Rightarrow> bool" where
  "mul_overflows count sz \<longleftrightarrow> 2 ^ LENGTH('w) \<le> unat count * unat sz"

definition malloc_contract :: "('h, 'w::len) libc \<Rightarrow> bool" where
  "malloc_contract plat \<longleftrightarrow>
     (\<forall>n h. alloc_post plat (unat n) h (fst (p_malloc plat n h)) (snd (p_malloc plat n h)))"

text \<open>
  \<^verbatim>\<open>calloc\<close> allocates space for \<open>count\<close> objects of \<open>sz\<close> bytes each, all bits zero;
  it returns the null pointer when the product wraps around \<^verbatim>\<open>size_t\<close>.
\<close>

definition calloc_contract :: "('h, 'w::len) libc \<Rightarrow> bool" where
  "calloc_contract plat \<longleftrightarrow>
     (\<forall>count sz h.
        alloc_post plat (unat count * unat sz) h
          (fst (p_calloc plat count sz h)) (snd (p_calloc plat count sz h)) \<and>
        (mul_overflows count sz \<longrightarrow> fst (p_calloc plat count sz h) = NULL) \<and>
        (fst (p_calloc plat count sz h) \<noteq> NULL \<longrightarrow>
           zeroed plat (unat count * unat sz)
             (fst (p_calloc plat count sz h)) (snd (p_calloc plat count sz h))))"

text \<open>
  \<^verbatim>\<open>free\<close> of the null pointer does nothing; \<^verbatim>\<open>free\<close> of the base of a live block
  releases that block and no other. For every other pointer the behaviour is undefined,
  so the contract says nothing about it.
\<close>

definition free_contract :: "('h, 'w::len) libc \<Rightarrow> bool" where
  "free_contract plat \<longleftrightarrow>
     (\<forall>h. p_free plat NULL h = Returned h) \<and>
     (\<forall>p h. p \<noteq> NULL \<and> p_live plat h p \<noteq> None \<longrightarrow>
        (\<exists>h'. p_free plat p h = Returned h' \<and> p_live plat h' = (p_live plat h)(p := None)))"

definition iso_c_allocator :: "('h, 'w::len) libc \<Rightarrow> bool" where
  "iso_c_allocator plat \<longleftrightarrow>
     0 < p_max_align plat \<and> malloc_contract plat \<and> calloc_contract plat \<and> free_contract plat"

subsection \<open>Two properties of a platform that the C standard does not demand\<close>



subsection \<open>A reference platform allocator\<close>

text \<open>
  A concrete C library to instantiate the contract with (it is not code of the
  repository): the state is the list of live blocks, newest first; a request is served
  at the first 16-byte boundary above every live block, and fails when the block would
  not fit the address space. \<^verbatim>\<open>malloc(0)\<close> returns a pointer of its own, as glibc
  does; fresh \<^verbatim>\<open>malloc\<close> memory is filled with \<^verbatim>\<open>0xAA\<close>; \<^verbatim>\<open>free\<close> of a pointer
  that is neither null nor live aborts.
\<close>

type_synonym 'w arena = "('w pointer \<times> byte list) list"

fun arena_top :: "'w::len arena \<Rightarrow> nat" where
  "arena_top [] = 0"
| "arena_top ((a, bs) # bl) = max (unat a + length bs) (arena_top bl)"

definition arena_next :: "'w::len arena \<Rightarrow> nat" where
  "arena_next bl = (arena_top bl div 16 + 1) * 16"

definition arena_alloc :: "nat \<Rightarrow> byte \<Rightarrow> 'w::len arena \<Rightarrow> 'w pointer \<times> 'w arena" where
  "arena_alloc n fill bl =
     (if 2 ^ LENGTH('w) \<le> arena_next bl + n then (NULL, bl)
      else (of_nat (arena_next bl), (of_nat (arena_next bl), replicate n fill) # bl))"

definition arena_malloc :: "'w::len size_t \<Rightarrow> 'w arena \<Rightarrow> 'w pointer \<times> 'w arena" where
  "arena_malloc sz bl = arena_alloc (unat sz) 0xAA bl"

definition arena_calloc ::
  "'w::len size_t \<Rightarrow> 'w size_t \<Rightarrow> 'w arena \<Rightarrow> 'w pointer \<times> 'w arena" where
  "arena_calloc count sz bl =
     (if mul_overflows count sz then (NULL, bl) else arena_alloc (unat count * unat sz) 0 bl)"

definition arena_free :: "'w::len pointer \<Rightarrow> 'w arena \<Rightarrow> 'w arena free_outcome" where
  "arena_free p bl =
     (if p = NULL then Returned bl
      else if map_of bl p = None then Aborted
      else Returned (filter (\<lambda>e. fst e \<noteq> p) bl))"

definition arena_libc :: "('w::len arena, 'w) libc" where
  "arena_libc =
     \<lparr>p_malloc = arena_malloc, p_calloc = arena_calloc, p_free = arena_free,
      p_live = map_of, p_max_align = 16\<rparr>"



subsection \<open>The reference allocator with errno\<close>








subsection \<open>The reference allocator meets the contract\<close>

lemma arena_key_le_top: "(a, bs) \<in> set bl \<Longrightarrow> unat a + length bs \<le> arena_top bl"
  by (induction bl) auto

lemma arena_top_lt_next: "arena_top bl < arena_next bl"
  unfolding arena_next_def by presburger

lemma arena_next_aligned: "arena_next bl mod 16 = 0"
  by (simp add: arena_next_def)

lemma arena_next_pos: "0 < arena_next bl"
  by (simp add: arena_next_def)

lemma map_of_above_top:
  assumes "arena_top bl < unat p"
  shows "map_of bl p = None"
proof (rule ccontr)
  assume "map_of bl p \<noteq> None"
  then obtain bs where "map_of bl p = Some bs" by auto
  then have "(p, bs) \<in> set bl" by (rule map_of_SomeD)
  then have "unat p + length bs \<le> arena_top bl" by (rule arena_key_le_top)
  with assms show False by simp
qed

lemma map_of_filter_key:
  "map_of (filter (\<lambda>e. fst e \<noteq> p) bl) = (map_of bl)(p := None)"
  by (induction bl) (auto simp: fun_eq_iff)

lemma arena_alloc_fits:
  fixes bl :: "'w::len arena"
  assumes "\<not> 2 ^ LENGTH('w) \<le> arena_next bl + n"
  shows "unat (of_nat (arena_next bl) :: 'w word) = arena_next bl"
proof -
  from assms have "arena_next bl < 2 ^ LENGTH('w)" by simp
  then show ?thesis by (simp add: unat_of_nat)
qed

lemma arena_alloc_post:
  fixes bl :: "'w::len arena"
  shows "alloc_post arena_libc n bl (fst (arena_alloc n fill bl)) (snd (arena_alloc n fill bl))"
proof (cases "2 ^ LENGTH('w) \<le> arena_next bl + n")
  case True
  then show ?thesis
    by (simp add: alloc_post_def alloc_failed_def arena_alloc_def)
next
  case False
  let ?p = "of_nat (arena_next bl) :: 'w word"
  have u: "unat ?p = arena_next bl" using False by (rule arena_alloc_fits)
  have nz: "?p \<noteq> NULL"
  proof
    assume "?p = NULL"
    then have "unat ?p = 0" by (simp add: NULL_def)
    with u arena_next_pos [of bl] show False by simp
  qed
  have fresh: "map_of bl ?p = None"
    by (rule map_of_above_top) (simp add: u arena_top_lt_next)
  have al: "unat ?p mod 16 = 0" by (simp add: u arena_next_aligned)
  have "alloc_succeeded arena_libc n bl ?p ((?p, replicate n fill) # bl)"
    unfolding alloc_succeeded_def using nz fresh al
    by (auto simp: arena_libc_def intro!: exI [of _ "replicate n fill"])
  with False show ?thesis
    by (simp add: alloc_post_def arena_alloc_def)
qed

lemma arena_malloc_contract: "malloc_contract (arena_libc :: ('w::len arena, 'w) libc)"
  unfolding malloc_contract_def
proof (intro allI)
  fix n :: "'w word" and h :: "'w arena"
  have "alloc_post arena_libc (unat n) h (fst (arena_alloc (unat n) 0xAA h)) (snd (arena_alloc (unat n) 0xAA h))"
    by (rule arena_alloc_post)
  then show "alloc_post arena_libc (unat n) h (fst (p_malloc arena_libc n h)) (snd (p_malloc arena_libc n h))"
    by (simp add: arena_libc_def arena_malloc_def)
qed

lemma arena_alloc_zeroed:
  fixes bl :: "'w::len arena"
  assumes "fst (arena_alloc n 0 bl) \<noteq> NULL"
  shows "zeroed arena_libc n (fst (arena_alloc n 0 bl)) (snd (arena_alloc n 0 bl))"
  using assms
  by (auto simp: arena_alloc_def zeroed_def arena_libc_def split: if_splits)

lemma arena_calloc_contract: "calloc_contract (arena_libc :: ('w::len arena, 'w) libc)"
  unfolding calloc_contract_def
proof (intro allI)
  fix count sz :: "'w word" and h :: "'w arena"
  let ?r = "p_calloc arena_libc count sz h"
  have r: "?r = arena_calloc count sz h" by (simp add: arena_libc_def)
  show "alloc_post arena_libc (unat count * unat sz) h (fst ?r) (snd ?r) \<and>
        (mul_overflows count sz \<longrightarrow> fst ?r = NULL) \<and>
        (fst ?r \<noteq> NULL \<longrightarrow> zeroed arena_libc (unat count * unat sz) (fst ?r) (snd ?r))"
  proof (cases "mul_overflows count sz")
    case True
    then show ?thesis
      by (simp add: r arena_calloc_def alloc_post_def alloc_failed_def)
  next
    case False
    then have e: "arena_calloc count sz h = arena_alloc (unat count * unat sz) 0 h"
      by (simp add: arena_calloc_def)
    show ?thesis
      unfolding r e using False arena_alloc_post [of "unat count * unat sz" h 0]
        arena_alloc_zeroed [of "unat count * unat sz" h]
      by simp
  qed
qed

lemma arena_free_contract: "free_contract (arena_libc :: ('w::len arena, 'w) libc)"
  unfolding free_contract_def
  by (simp add: arena_libc_def arena_free_def map_of_filter_key)

lemma arena_libc_conforms: "iso_c_allocator (arena_libc :: ('w::len arena, 'w) libc)"
  unfolding iso_c_allocator_def
  using arena_malloc_contract arena_calloc_contract arena_free_contract
  by (simp add: arena_libc_def)












subsection \<open>What the shim inherits from a conforming platform\<close>

lemma native_malloc_post:
  assumes "iso_c_allocator plat"
  shows "alloc_post plat (unat n) h (fst (native_malloc plat n h)) (snd (native_malloc plat n h))"
  using assms by (simp add: iso_c_allocator_def malloc_contract_def native_malloc_def)

lemma native_calloc_post:
  assumes "iso_c_allocator plat"
  shows "alloc_post plat (unat count * unat sz) h
           (fst (native_calloc plat count sz h)) (snd (native_calloc plat count sz h))"
  using assms by (simp add: iso_c_allocator_def calloc_contract_def native_calloc_def)

lemma native_calloc_overflow:
  assumes "iso_c_allocator plat" and "mul_overflows count sz"
  shows "fst (native_calloc plat count sz h) = NULL"
  using assms by (simp add: iso_c_allocator_def calloc_contract_def native_calloc_def)


lemma native_free_null:
  assumes "iso_c_allocator plat"
  shows "native_free plat NULL h = Returned h"
  using assms by (simp add: iso_c_allocator_def free_contract_def native_free_def)










text \<open>Evaluating the reference allocator on 64-bit inputs.\<close>

lemmas arena_eval =
  native_malloc_def native_calloc_def native_free_def arena_libc_def arena_malloc_def
  arena_calloc_def arena_free_def arena_alloc_def arena_next_def mul_overflows_def NULL_def


section \<open>The claims\<close>



text \<open>
  Claim C2, as amended. When \<open>count * size\<close> overflows \<^verbatim>\<open>size_t\<close>, \<open>native_calloc count size\<close>
  on a platform that meets the C contract returns the null pointer and leaves every live
  block as it was: no block is allocated, so none is truncated. The null pointer is the
  only failure value of the shim; it carries no error kind.
\<close>

theorem zero_allocate_overflow_null:
  assumes "iso_c_allocator plat" and "mul_overflows count sz"
    and "native_calloc plat count sz h = (p, h')"
  shows "p = NULL \<and> p_live plat h' = p_live plat h"
proof -
  have p: "p = fst (native_calloc plat count sz h)" and h': "h' = snd (native_calloc plat count sz h)"
    using assms(3) by simp_all
  have null: "p = NULL"
    unfolding p using assms(1,2) by (rule native_calloc_overflow)
  have "alloc_post plat (unat count * unat sz) h p h'"
    unfolding p h' using assms(1) by (rule native_calloc_post)
  with null have "alloc_failed plat h p h'"
    by (simp add: alloc_post_def alloc_succeeded_def)
  then show ?thesis by (simp add: alloc_failed_def)
qed

theorem zero_allocate_overflow_null_witness:
  "iso_c_allocator (arena_libc :: (64 arena, 64) libc) \<and>
   mul_overflows (0x8000000000000000 :: 64 word) 2 \<and>
   native_calloc arena_libc (0x8000000000000000 :: 64 word) 2 [(16, [1, 2, 3])]
     = (NULL, [(16, [1, 2, 3])])"
proof -
  have a: "iso_c_allocator (arena_libc :: (64 arena, 64) libc)" by (rule arena_libc_conforms)
  have b: "mul_overflows (0x8000000000000000 :: 64 word) 2" by (simp add: mul_overflows_def)
  have c: "native_calloc arena_libc (0x8000000000000000 :: 64 word) 2 [(16, [1, 2, 3])]
     = (NULL, [(16, [1, 2, 3])])"
    by (simp add: arena_eval)
  show ?thesis using a b c zero_allocate_overflow_null [OF a b c] by simp
qed

text \<open>
  The claim as stated asks for an error that is told apart from running out of memory.
  On the reference allocator a call whose product overflows and a call whose product
  fits but exceeds the address space return the same thing, the null pointer and the
  unchanged state.
\<close>

theorem zero_allocate_overflow_counterexample:
  "mul_overflows (0x8000000000000000 :: 64 word) 2 \<and>
   native_calloc arena_libc (0x8000000000000000 :: 64 word) 2 [] = (NULL, []) \<and>
   \<not> mul_overflows (0xFFFFFFFFFFFFFFFF :: 64 word) 1 \<and>
   native_calloc arena_libc (0xFFFFFFFFFFFFFFFF :: 64 word) 1 [] = (NULL, [])"
  by (simp add: arena_eval)




text \<open>
  Claim C4, as amended. \<open>native_malloc 0\<close> is not rejected by the shim: it is the platform's
  \<^verbatim>\<open>malloc(0)\<close>, which under the C contract either returns the null pointer and allocates
  nothing, or returns a fresh, aligned, live pointer.
\<close>

theorem allocate_zero_platform_defined:
  assumes "iso_c_allocator plat"
  shows "native_malloc plat 0 h = p_malloc plat 0 h \<and>
         alloc_post plat 0 h (fst (native_malloc plat 0 h)) (snd (native_malloc plat 0 h))"
  using native_malloc_post [OF assms, of 0 h] by (simp add: native_malloc_def)

theorem allocate_zero_platform_defined_witness:
  "iso_c_allocator (arena_libc :: (64 arena, 64) libc) \<and>
   native_malloc arena_libc (0 :: 64 word) [] = (16, [(16, [])]) \<and>
   alloc_succeeded arena_libc 0 [] (16 :: 64 word) [(16, [])]"
proof -
  have a: "iso_c_allocator (arena_libc :: (64 arena, 64) libc)" by (rule arena_libc_conforms)
  have b: "native_malloc arena_libc (0 :: 64 word) [] = (16, [(16, [])])"
    by (simp add: arena_eval)
  have c: "(16 :: 64 word) \<noteq> NULL" by (simp add: NULL_def)
  have "alloc_post arena_libc 0 [] (fst (native_malloc arena_libc (0 :: 64 word) []))
          (snd (native_malloc arena_libc (0 :: 64 word) []))"
    using allocate_zero_platform_defined [OF a, of "[]"] by (rule conjunct2)
  then have "alloc_post arena_libc 0 [] (16 :: 64 word) [(16, [])]"
    unfolding b by simp
  with c have "alloc_succeeded arena_libc 0 [] (16 :: 64 word) [(16, [])]"
    by (simp add: alloc_post_def alloc_failed_def)
  with a b show ?thesis by simp
qed

text \<open>
  The claim as stated has a request of size zero rejected. On the reference allocator it
  returns an ordinary pointer, not null, that is the base of a live block.
\<close>

theorem allocate_zero_counterexample:
  "native_malloc arena_libc (0 :: 64 word) [] = (16, [(16, [])]) \<and> (16 :: 64 word) \<noteq> NULL \<and>
   p_live arena_libc (snd (native_malloc arena_libc (0 :: 64 word) [])) 16 = Some []"
  by (simp add: arena_eval)








text \<open>
  Claim C9. Each exported function is the platform call of the same name on the same
  arguments and the same state: the result and the state left behind are the platform's,
  and the shim keeps no state of its own.
\<close>

theorem shim_forwards_to_platform:
  "native_malloc plat sz h = p_malloc plat sz h \<and>
   native_calloc plat count sz h = p_calloc plat count sz h \<and>
   native_free plat ptr h = p_free plat ptr h"
  by (simp add: native_malloc_def native_calloc_def native_free_def)

text \<open>
  Claim C10. On a platform that meets the C contract, \<open>native_free\<close> of the null pointer
  returns normally and leaves the allocator state as it was.
\<close>

theorem free_null_is_noop:
  assumes "iso_c_allocator plat"
  shows "native_free plat NULL h = Returned h"
  using assms by (rule native_free_null)

theorem free_null_is_noop_witness:
  "iso_c_allocator (arena_libc :: (64 arena, 64) libc) \<and>
   native_free arena_libc NULL [(32 :: 64 word, [7]), (16, [1, 2, 3])]
     = Returned [(32, [7]), (16, [1, 2, 3])]"
proof -
  have a: "iso_c_allocator (arena_libc :: (64 arena, 64) libc)" by (rule arena_libc_conforms)
  show ?thesis using a free_null_is_noop [OF a, of "[(32 :: 64 word, [7]), (16, [1, 2, 3])]"] by simp
qed

end
